theory Spec2Isabelle
  imports Complex_Main
begin

section \<open>Sparse variational Gaussian process (pyro/contrib/gp/models/svgp.py)\<close>

text \<open>
  A shallow embedding of the class \<open>SparseVariationalGP\<close>. The three programs
  \<open>model\<close>, \<open>guide\<close> and \<open>forward\<close> and the constructor are translated from
  the source. Everything a call does besides returning is explicit: the instance attributes
  it writes, the storage of the parameters, and the trace of probabilistic sample sites
  it declares. A raise is a value \<open>Inl err\<close> returned together with the state as it
  is at the raise, so that a mutation made before a raise stays visible.
\<close>

subsection \<open>Tensors\<close>

text \<open>
  A tensor is its shape and its entries in row-major order. The entries are real numbers:
  rounding, infinities and NaN of the floating-point engine are not modelled.
\<close>

record tensor =
  shape :: "nat list"
  data :: "real list"

definition new_zeros :: "nat list \<Rightarrow> tensor" where
  "new_zeros sh = \<lparr>shape = sh, data = replicate (prod_list sh) 0\<rparr>"

text \<open>\<open>torch.eye(M)\<close>: entry \<open>k = i * M + j\<close> of the row-major data is 1 iff \<open>i = j\<close>.\<close>

definition eye :: "nat \<Rightarrow> tensor" where
  "eye M = \<lparr>shape = [M, M], data = map (\<lambda>k. if k div M = k mod M then 1 else 0) [0..<M * M]\<rparr>"

text \<open>
  \<open>t.expand(sh)\<close> where \<open>sh\<close> is the shape of \<open>t\<close> with batch dimensions put in front
  (the only use in the source): the entries of \<open>t\<close>, once per batch index.
\<close>

definition expand :: "tensor \<Rightarrow> nat list \<Rightarrow> tensor" where
  "expand t sh =
     \<lparr>shape = sh,
      data = concat (replicate (prod_list (take (length sh - length (shape t)) sh)) (data t))\<rparr>"

text \<open>Entrywise sum of two tensors of one shape, and product with a scalar.\<close>

definition tadd :: "tensor \<Rightarrow> tensor \<Rightarrow> tensor" where
  "tadd a b = \<lparr>shape = shape a, data = map2 (+) (data a) (data b)\<rparr>"

definition smul :: "tensor \<Rightarrow> real \<Rightarrow> tensor" where
  "smul t c = \<lparr>shape = shape t, data = map (\<lambda>x. x * c) (data t)\<rparr>"

subsection \<open>Errors, distributions, the trace\<close>

datatype error = NumericalError | ShapeError | IndexError

text \<open>
  \<open>dist.MultivariateNormal(loc, scale_tril=L).reshape(extra_event_dims=k)\<close>. The number
  \<open>k\<close> is \<open>loc.dim() - 1\<close> in the source, an integer that is negative for a
  0-dimensional \<open>loc\<close>.
\<close>

datatype distribution =
  MultivariateNormal tensor tensor
| Reshape distribution int

text \<open>
  What a program does to its collaborators, in order: a sample site declared with
  \<open>pyro.sample\<close>, and a call of the likelihood object.
\<close>

datatype event =
  SampleSite string distribution
| LikelihoodCall tensor tensor tensor

fun is_SampleSite :: "event \<Rightarrow> bool" where
  "is_SampleSite (SampleSite n d) = True"
| "is_SampleSite (LikelihoodCall a b c) = False"

fun is_LikelihoodCall :: "event \<Rightarrow> bool" where
  "is_LikelihoodCall (LikelihoodCall a b c) = True"
| "is_LikelihoodCall (SampleSite n d) = False"

subsection \<open>The external runtime\<close>

text \<open>
  The tensor engine and the probabilistic runtime are not part of the program. They
  are parameters: \<open>potrf\<close> is the lower Cholesky factorisation (\<open>None\<close> when the
  matrix is not positive definite), \<open>draw\<close> is the value the runtime returns at a
  sample site, \<open>param_with_module_name\<close> builds a site name from the instance name.
\<close>

record env =
  potrf :: "tensor \<Rightarrow> tensor option"
  draw :: "string \<Rightarrow> distribution \<Rightarrow> tensor"
  param_with_module_name :: "string \<Rightarrow> string \<Rightarrow> string"

subsection \<open>The instance and the store\<close>

text \<open>
  The three parameters of the class, named by the strings \<open>"Xu"\<close>, \<open>"u_loc"\<close> and
  \<open>"u_scale_tril"\<close> in the source.
\<close>

datatype param = P_Xu | P_u_loc | P_u_scale_tril

datatype constraint = lower_cholesky

text \<open>
  The store \<open>mem\<close> maps an address to the tensor held there, \<open>next_ref\<close> is the
  first unused address. A parameter is an address: the optimizer updates the tensor
  at that address in place, and whoever else holds the address sees the update.
\<close>

record world =
  mem :: "nat \<Rightarrow> tensor"
  next_ref :: nat
  trace :: "event list"

record 'r svgp = world +
  self_X :: tensor
  self_y :: "tensor option"
  self_kernel :: "tensor \<Rightarrow> tensor option \<Rightarrow> tensor"
  self_jitter :: real
  self_name :: string
  self_likelihood :: "tensor \<Rightarrow> tensor \<Rightarrow> tensor \<Rightarrow> 'r"
  params :: "param \<Rightarrow> nat"
  constraints :: "param \<Rightarrow> constraint option"
  self_latent_shape :: "nat list"
  self_sample_latent :: bool
  mode :: "string option"

text \<open>
  Modelled from the spec: \<open>set_mode\<close> of the base class, which is not among the
  sources. The spec gives it no effect on the parameters or on the sample sites; the
  call records the mode it is given (\<open>"model"\<close> at line 95, \<open>"guide"\<close> at line 120).
\<close>

definition set_mode :: "string \<Rightarrow> 'r svgp \<Rightarrow> 'r svgp" where
  "set_mode m s = s\<lparr>mode := Some m\<rparr>"

text \<open>
  Modelled from the spec: \<open>get_param\<close> of the base class, which is not among the
  sources. The spec: \<open>get(name) -> currentValue\<close>, where the value is a live reference
  mutated by the optimizer; so the call reads the store at the parameter's address.
\<close>

definition get_param :: "param \<Rightarrow> 'r svgp \<Rightarrow> tensor" where
  "get_param p s = mem s (params s p)"

text \<open>
  Modelled from the spec: \<open>set_constraint\<close> of the base class, which is not among
  the sources. The spec: a constraint transform is attached to a parameter name.
\<close>

definition set_constraint :: "param \<Rightarrow> constraint \<Rightarrow> 'r svgp \<Rightarrow> 'r svgp" where
  "set_constraint p c s = s\<lparr>constraints := (constraints s)(p := Some c)\<rparr>"

text \<open>
  Modelled from the spec: an optimisation step of the external optimizer on one
  parameter, which "mutates in place" the value held in the store.
\<close>

definition write_param :: "param \<Rightarrow> tensor \<Rightarrow> 'r svgp \<Rightarrow> 'r svgp" where
  "write_param p v s = s\<lparr>mem := (mem s)(params s p := v)\<rparr>"

text \<open>
  \<open>pyro.sample(name, d)\<close>: the site is appended to the trace, the value is the
  runtime's draw.
\<close>

definition pyro_sample :: "env \<Rightarrow> string \<Rightarrow> distribution \<Rightarrow> 'r svgp \<Rightarrow> tensor \<times> 'r svgp" where
  "pyro_sample e n d s = (draw e n d, s\<lparr>trace := trace s @ [SampleSite n d]\<rparr>)"

text \<open>
  Modelled from the spec: \<open>_check_Xnew_shape\<close> of the base class, which is not
  among the sources. The spec: the shape of \<open>Xnew\<close> must be compatible with the
  training inputs' dimensionality (the first axis is the point count, the rest are the
  features), ShapeError otherwise.
\<close>

definition check_Xnew_shape :: "tensor \<Rightarrow> 'r svgp \<Rightarrow> error + unit" where
  "check_Xnew_shape Xnew s =
     (if length (shape Xnew) = length (shape (self_X s)) \<and> tl (shape Xnew) = tl (shape (self_X s))
      then Inr () else Inl ShapeError)"

subsection \<open>The conditional-distribution engine\<close>

text \<open>
  The function \<open>conditional\<close> of \<open>pyro.contrib.gp.util\<close> is not among the
  sources. It is modelled from the seven steps of section 4.1 of the spec, on real
  matrices, a matrix being the list of its rows. The definitions of this subsection are
  the parts of that model.
\<close>

text \<open>
  Modelled from the spec: the point count of a set of points, the size of its first
  axis (\<open>|Xnew|\<close> and \<open>M\<close> in the spec).
\<close>

definition npoints :: "tensor \<Rightarrow> nat" where
  "npoints t = (case shape t of [] \<Rightarrow> 0 | n # _ \<Rightarrow> n)"

text \<open>
  Modelled from the spec: the matrices and vectors of section 4.1 read from row-major
  data. \<open>slices n len xs\<close> are the first \<open>n\<close> consecutive pieces of length
  \<open>len\<close> (the rows of a matrix, the batches of a batched tensor), \<open>cols n m\<close> are
  the first \<open>n\<close> columns of the matrix \<open>m\<close>, \<open>dot\<close> is the inner product.
\<close>

definition slices :: "nat \<Rightarrow> nat \<Rightarrow> real list \<Rightarrow> real list list" where
  "slices n len xs = map (\<lambda>i. take len (drop (i * len) xs)) [0..<n]"

definition entry :: "real list \<Rightarrow> nat \<Rightarrow> real" where
  "entry r j = (if j < length r then r ! j else 0)"

definition cols :: "nat \<Rightarrow> real list list \<Rightarrow> real list list" where
  "cols n m = map (\<lambda>j. map (\<lambda>r. entry r j) m) [0..<n]"

definition dot :: "real list \<Rightarrow> real list \<Rightarrow> real" where
  "dot u v = sum_list (map2 (*) u v)"

text \<open>
  Modelled from the spec: the triangular solve of steps 3, 4 and 6, by forward
  substitution for \<open>L x = b\<close> with \<open>L\<close> lower triangular. \<open>acc\<close> holds the
  entries of \<open>x\<close> found so far.
\<close>

fun fwd_subst :: "real list list \<Rightarrow> real list \<Rightarrow> real list \<Rightarrow> real list" where
  "fwd_subst [] bs acc = acc"
| "fwd_subst (r # rs) [] acc = acc"
| "fwd_subst (r # rs) (b # bs) acc =
     fwd_subst rs bs (acc @ [(b - dot r acc) / entry r (length acc)])"

definition solve :: "real list list \<Rightarrow> real list \<Rightarrow> real list" where
  "solve L b = fwd_subst L b []"

text \<open>
  Modelled from the spec: steps 4 to 6 for one latent batch index. \<open>Wt\<close> is the transpose of
  \<open>W = L\<^sup>-\<^sup>1 Kuf\<close> (step 3), \<open>loc\<close> and \<open>S\<close> are the posterior mean
  and scale factor of the batch. The mean is \<open>W\<^sup>T (L\<^sup>-\<^sup>1 loc)\<close> (step 4), the
  base covariance is \<open>Kff - W\<^sup>T W\<close> (step 5), and with \<open>V = L\<^sup>-\<^sup>1 S\<close> the
  correction of step 6 is \<open>P P\<^sup>T\<close> for \<open>P = W\<^sup>T V\<close>.
\<close>

definition batch_mean :: "real list list \<Rightarrow> real list list \<Rightarrow> real list \<Rightarrow> real list" where
  "batch_mean L Wt loc = map (\<lambda>w. dot w (solve L loc)) Wt"

definition batch_P :: "nat \<Rightarrow> real list list \<Rightarrow> real list list \<Rightarrow> real list list \<Rightarrow> real list list" where
  "batch_P M L Wt S = map (\<lambda>w. map (\<lambda>v. dot w v) (map (solve L) (cols M S))) Wt"

definition batch_cov :: "real list list \<Rightarrow> real list list \<Rightarrow> real list list \<Rightarrow> real list list" where
  "batch_cov Kff Wt P =
     map (\<lambda>(kr, w, p). map (\<lambda>(k, w', p'). k - dot w w' + dot p p') (zip kr (zip Wt P)))
       (zip Kff (zip Wt P))"

definition batch_var :: "real list list \<Rightarrow> real list list \<Rightarrow> real list list \<Rightarrow> real list" where
  "batch_var Kff Wt P =
     map (\<lambda>(j, w, p). entry (Kff ! j) j - dot w w + dot p p) (zip [0..<length Kff] (zip Wt P))"

text \<open>Modelled from the spec: step 7, the exact floor at zero, for one entry.\<close>

definition clip :: "real \<Rightarrow> real" where
  "clip v = (if v < 0 then 0 else v)"

text \<open>
  Modelled from the spec: steps 2 to 6 for all batches, given the Cholesky factor. The
  result is the mean, and the covariance (or, in diagonal mode, the variance) before it
  is clipped.
\<close>

definition conditional_raw ::
  "tensor \<Rightarrow> tensor \<Rightarrow> tensor \<Rightarrow> (tensor \<Rightarrow> tensor option \<Rightarrow> tensor) \<Rightarrow> tensor \<Rightarrow> tensor \<Rightarrow> bool
     \<Rightarrow> tensor \<times> tensor" where
  "conditional_raw Luu Xnew Xu kernelFn meanU scaleU fullCov =
     (let M = npoints Xu;
          N = npoints Xnew;
          latent = butlast (shape meanU);
          B = prod_list latent;
          L = slices M M (data Luu);
          Kuf = slices M N (data (kernelFn Xu (Some Xnew)));
          Kff = slices N N (data (kernelFn Xnew (Some Xnew)));
          Wt = map (solve L) (cols N Kuf);
          locs = slices B M (data meanU);
          Ss = map (slices M M) (slices B (M * M) (data scaleU));
          Ps = map (batch_P M L Wt) Ss;
          meanNew = \<lparr>shape = latent @ [N], data = concat (map (batch_mean L Wt) locs)\<rparr>
      in if fullCov
         then (meanNew,
               \<lparr>shape = latent @ [N, N], data = concat (concat (map (batch_cov Kff Wt) Ps))\<rparr>)
         else (meanNew,
               \<lparr>shape = latent @ [N], data = concat (map (batch_var Kff Wt) Ps)\<rparr>))"

text \<open>
  Modelled from the spec: step 7 on the result of steps 2 to 6. Negative variances are
  clipped in diagonal mode only.
\<close>

definition clip_var :: "bool \<Rightarrow> tensor \<times> tensor \<Rightarrow> tensor \<times> tensor" where
  "clip_var fullCov r =
     (if fullCov then r else (fst r, \<lparr>shape = shape (snd r), data = map clip (data (snd r))\<rparr>))"

text \<open>
  Modelled from the spec: step 1, the Cholesky factor of \<open>Kuu = k(Xu, Xu) + jitter I\<close>
  unless it is supplied. \<open>None\<close> is the failure of the factorisation.
\<close>

definition cholesky_uu ::
  "(tensor \<Rightarrow> tensor option) \<Rightarrow> tensor \<Rightarrow> (tensor \<Rightarrow> tensor option \<Rightarrow> tensor) \<Rightarrow> tensor option
     \<Rightarrow> real \<Rightarrow> tensor option" where
  "cholesky_uu chol Xu kernelFn choleskyUU jitter =
     (case choleskyUU of
        Some L \<Rightarrow> Some L
      | None \<Rightarrow> chol (tadd (kernelFn Xu (Some Xu)) (smul (eye (npoints Xu)) jitter)))"

text \<open>
  Modelled from the spec: the contract
  \<open>conditional(Xnew, Xu, kernelFn, meanU, scaleU, [choleskyUU], fullCov, jitter)\<close>,
  which fails with NumericalError when step 1 fails and returns the result of steps 2 to
  7 otherwise.
\<close>

definition conditional ::
  "(tensor \<Rightarrow> tensor option) \<Rightarrow> tensor \<Rightarrow> tensor \<Rightarrow> (tensor \<Rightarrow> tensor option \<Rightarrow> tensor) \<Rightarrow> tensor
     \<Rightarrow> tensor \<Rightarrow> tensor option \<Rightarrow> bool \<Rightarrow> real \<Rightarrow> error + tensor \<times> tensor" where
  "conditional chol Xnew Xu kernelFn meanU scaleU choleskyUU fullCov jitter =
     (case cholesky_uu chol Xu kernelFn choleskyUU jitter of
        None \<Rightarrow> Inl NumericalError
      | Some L \<Rightarrow> Inr (clip_var fullCov (conditional_raw L Xnew Xu kernelFn meanU scaleU fullCov)))"

subsection \<open>The constructor\<close>

text \<open>
  \<open>__init__(X, y, kernel, Xu, likelihood, latent_shape, jitter, name)\<close> in the world
  \<open>w\<close>. The caller's tensor \<open>Xu\<close> is the address \<open>Xu_ref\<close>. \<open>Parameter(Xu)\<close>
  wraps the tensor it is given and the source makes no copy of it, so the parameter is
  that address. \<open>new_zeros\<close> and \<open>eye\<close> make new tensors, which take the next two
  unused addresses. \<open>Xu.shape[0]\<close> raises IndexError on a 0-dimensional tensor.
\<close>

definition init ::
  "world \<Rightarrow> tensor \<Rightarrow> tensor option \<Rightarrow> (tensor \<Rightarrow> tensor option \<Rightarrow> tensor) \<Rightarrow> nat
     \<Rightarrow> (tensor \<Rightarrow> tensor \<Rightarrow> tensor \<Rightarrow> 'r) \<Rightarrow> nat list option \<Rightarrow> real \<Rightarrow> string \<Rightarrow> error + 'r svgp" where
  "init w X y kern Xu_ref likelihood latent_shape jitter name =
     (let y_batch_shape = (case y of Some yv \<Rightarrow> butlast (shape yv) | None \<Rightarrow> []);
          ls = (case latent_shape of Some l \<Rightarrow> l | None \<Rightarrow> y_batch_shape)
      in case shape (mem w Xu_ref) of
           [] \<Rightarrow> Inl IndexError
         | M # _ \<Rightarrow>
             (let u_loc_shape = ls @ [M];
                  u_loc = new_zeros u_loc_shape;
                  u_loc_ref = next_ref w;
                  u_scale_tril_shape = ls @ [M, M];
                  u_scale_tril = expand (eye M) u_scale_tril_shape;
                  u_scale_tril_ref = Suc (next_ref w)
              in Inr (set_constraint P_u_scale_tril lower_cholesky
                   \<lparr>mem = (mem w)(u_loc_ref := u_loc, u_scale_tril_ref := u_scale_tril),
                    next_ref = Suc (Suc (next_ref w)),
                    trace = trace w,
                    self_X = X,
                    self_y = y,
                    self_kernel = kern,
                    self_jitter = jitter,
                    self_name = name,
                    self_likelihood = likelihood,
                    params = (\<lambda>p. case p of P_Xu \<Rightarrow> Xu_ref | P_u_loc \<Rightarrow> u_loc_ref
                                        | P_u_scale_tril \<Rightarrow> u_scale_tril_ref),
                    constraints = (\<lambda>p. None),
                    self_latent_shape = ls,
                    self_sample_latent = True,
                    mode = None\<rparr>)))"

subsection \<open>The generative model, the guide and the prediction\<close>

text \<open>
  \<open>model()\<close> returns the latent mean and variance when there is no \<open>y\<close>, and what
  the likelihood returns otherwise.
\<close>

datatype 'r model_result = Latent tensor tensor | Observed 'r

definition model :: "env \<Rightarrow> 'r svgp \<Rightarrow> (error + 'r model_result) \<times> 'r svgp" where
  "model e s0 =
     (let s1 = set_mode ''model'' s0;
          Xu = get_param P_Xu s1;
          u_loc = get_param P_u_loc s1;
          u_scale_tril = get_param P_u_scale_tril s1
      in case shape Xu of
           [] \<Rightarrow> (Inl IndexError, s1)
         | M # _ \<Rightarrow>
             (let Kuu = tadd (self_kernel s1 Xu None) (smul (eye M) (self_jitter s1))
              in case potrf e Kuu of
                   None \<Rightarrow> (Inl NumericalError, s1)
                 | Some Luu \<Rightarrow>
                     (let zero_loc = new_zeros (shape u_loc);
                          u_name = param_with_module_name e (self_name s1) ''u'';
                          (u, s2) = pyro_sample e u_name
                             (Reshape (MultivariateNormal zero_loc Luu)
                                (int (length (shape zero_loc)) - 1)) s1
                      in case conditional (potrf e) (self_X s2) Xu (self_kernel s2) u_loc
                                u_scale_tril (Some Luu) False (self_jitter s2) of
                           Inl err \<Rightarrow> (Inl err, s2)
                         | Inr (f_loc, f_var) \<Rightarrow>
                             (case self_y s2 of
                                None \<Rightarrow> (Inr (Latent f_loc f_var), s2)
                              | Some yv \<Rightarrow>
                                  (Inr (Observed (self_likelihood s2 f_loc f_var yv)),
                                   s2\<lparr>trace := trace s2 @ [LikelihoodCall f_loc f_var yv]\<rparr>)))))"

definition guide ::
  "env \<Rightarrow> 'r svgp \<Rightarrow> (tensor \<times> (tensor \<Rightarrow> tensor option \<Rightarrow> tensor) \<times> tensor \<times> tensor) \<times> 'r svgp" where
  "guide e s0 =
     (let s1 = set_mode ''guide'' s0;
          Xu = get_param P_Xu s1;
          u_loc = get_param P_u_loc s1;
          u_scale_tril = get_param P_u_scale_tril s1;
          s2 = (if self_sample_latent s1
                then (let u_name = param_with_module_name e (self_name s1) ''u''
                      in snd (pyro_sample e u_name
                                (Reshape (MultivariateNormal u_loc u_scale_tril)
                                   (int (length (shape u_loc)) - 1)) s1))
                else s1)
      in ((Xu, self_kernel s2, u_loc, u_scale_tril), s2))"

definition forward :: "env \<Rightarrow> tensor \<Rightarrow> bool \<Rightarrow> 'r svgp \<Rightarrow> (error + tensor \<times> tensor) \<times> 'r svgp" where
  "forward e Xnew full_cov s0 =
     (case check_Xnew_shape Xnew s0 of
        Inl err \<Rightarrow> (Inl err, s0)
      | Inr _ \<Rightarrow>
          (let tmp_sample_latent = self_sample_latent s0;
               s1 = s0\<lparr>self_sample_latent := False\<rparr>;
               ((Xu, kern, u_loc, u_scale_tril), s2) = guide e s1;
               s3 = s2\<lparr>self_sample_latent := tmp_sample_latent\<rparr>
           in case conditional (potrf e) Xnew Xu kern u_loc u_scale_tril None full_cov
                     (self_jitter s3) of
                Inl err \<Rightarrow> (Inl err, s3)
              | Inr (loc, cov) \<Rightarrow> (Inr (loc, cov), s3)))"

text \<open>The events a call has appended to the trace.\<close>

definition new_events :: "'r svgp \<Rightarrow> 'r svgp \<Rightarrow> event list" where
  "new_events s s' = drop (length (trace s)) (trace s')"

subsection \<open>Names for the terms of \<open>model\<close>\<close>

text \<open>
  The matrix \<open>Kuu\<close> of line 102, the name of the sample site of lines 106 and 127,
  and the distributions declared at the site by \<open>model\<close> (given the Cholesky factor
  \<open>Luu\<close>) and by \<open>guide\<close>.
\<close>

definition model_Kuu :: "'r svgp \<Rightarrow> tensor" where
  "model_Kuu s =
     tadd (self_kernel s (get_param P_Xu s) None)
       (smul (eye (npoints (get_param P_Xu s))) (self_jitter s))"

definition u_name_of :: "env \<Rightarrow> 'r svgp \<Rightarrow> string" where
  "u_name_of e s = param_with_module_name e (self_name s) ''u''"

definition prior_dist :: "'r svgp \<Rightarrow> tensor \<Rightarrow> distribution" where
  "prior_dist s Luu =
     Reshape (MultivariateNormal (new_zeros (shape (get_param P_u_loc s))) Luu)
       (int (length (shape (get_param P_u_loc s))) - 1)"

definition posterior_dist :: "'r svgp \<Rightarrow> distribution" where
  "posterior_dist s =
     Reshape (MultivariateNormal (get_param P_u_loc s) (get_param P_u_scale_tril s))
       (int (length (shape (get_param P_u_loc s))) - 1)"

text \<open>The latent mean and variance of lines 111 and 112, given \<open>Luu\<close>.\<close>

definition model_conditional :: "env \<Rightarrow> 'r svgp \<Rightarrow> tensor \<Rightarrow> error + tensor \<times> tensor" where
  "model_conditional e s Luu =
     conditional (potrf e) (self_X s) (get_param P_Xu s) (self_kernel s) (get_param P_u_loc s)
       (get_param P_u_scale_tril s) (Some Luu) False (self_jitter s)"

subsection \<open>A concrete instance\<close>

text \<open>
  Two training points, one inducing point, the constant kernel \<open>k(a, b) = 1\<close> and
  jitter 3, so that \<open>Kuu = (4)\<close> with Cholesky factor \<open>(2)\<close>. The Cholesky oracle
  knows this matrix only. The caller's \<open>Xu\<close> is at address 0.
\<close>

definition kern0 :: "tensor \<Rightarrow> tensor option \<Rightarrow> tensor" where
  "kern0 A B =
     (let m = npoints A; n = (case B of None \<Rightarrow> m | Some b \<Rightarrow> npoints b)
      in \<lparr>shape = [m, n], data = replicate (m * n) 1\<rparr>)"

definition e0 :: env where
  "e0 = \<lparr>potrf = (\<lambda>t. if data t = [4] then Some \<lparr>shape = shape t, data = [2]\<rparr> else None),
         draw = (\<lambda>n d. \<lparr>shape = [1], data = [7]\<rparr>),
         param_with_module_name = (\<lambda>m p. m @ ''$$$'' @ p)\<rparr>"

definition w0 :: world where
  "w0 = \<lparr>mem = (\<lambda>r. \<lparr>shape = [1, 1], data = [1 / 2]\<rparr>), next_ref = 1, trace = []\<rparr>"

definition X0 :: tensor where
  "X0 = \<lparr>shape = [2, 1], data = [0, 1]\<rparr>"

definition y0 :: tensor where
  "y0 = \<lparr>shape = [2], data = [1 / 10, 9 / 10]\<rparr>"

definition lik0 :: "tensor \<Rightarrow> tensor \<Rightarrow> tensor \<Rightarrow> real" where
  "lik0 f_loc f_var yv = sum_list (data f_var)"

text \<open>The instance constructed without and with training outputs.\<close>

definition s0 :: "real svgp" where
  "s0 = projr (init w0 X0 None kern0 0 lik0 None 3 ''SVGP'')"

definition s0y :: "real svgp" where
  "s0y = projr (init w0 X0 (Some y0) kern0 0 lik0 None 3 ''SVGP'')"

text \<open>
  A caller whose \<open>Xu\<close> holds two inducing points, at address 0, and the instance
  constructed from it for two latent processes.
\<close>

definition w2 :: world where
  "w2 = \<lparr>mem = (\<lambda>r. \<lparr>shape = [2, 1], data = [1 / 2, 3 / 2]\<rparr>), next_ref = 1, trace = []\<rparr>"

definition s_two :: "real svgp" where
  "s_two = projr (init w2 X0 None kern0 0 lik0 (Some [2]) 3 ''SVGP'')"




text \<open>
  A kernel that breaks the Cauchy-Schwarz inequality: 1 between a point set and itself,
  3 between different point sets. With it the variance of steps 5 and 6 is negative
  before it is clipped. \<open>s_cs\<close> is the instance constructed with it, and \<open>s0'\<close> is
  \<open>s0\<close> in another mode, with sampling suppressed and with a site in the trace.
\<close>

definition kern_cs :: "tensor \<Rightarrow> tensor option \<Rightarrow> tensor" where
  "kern_cs A B =
     (let m = npoints A; n = (case B of None \<Rightarrow> m | Some b \<Rightarrow> npoints b)
      in \<lparr>shape = [m, n],
          data = replicate (m * n) (if B = None \<or> B = Some A then 1 else 3)\<rparr>)"

definition s_cs :: "real svgp" where
  "s_cs = projr (init w0 X0 None kern_cs 0 lik0 None 3 ''SVGP'')"

definition s0' :: "real svgp" where
  "s0' = s0\<lparr>trace := [SampleSite ''a'' (MultivariateNormal X0 X0)],
            self_sample_latent := False, mode := Some ''model''\<rparr>"

section \<open>What each program computes\<close>

text \<open>
  The programs as equations, case by case: these are the facts the properties below
  are derived from.
\<close>


lemma conditional_supplied:
  "conditional chol Xn Xu k mu S (Some L) fc j = Inr (clip_var fc (conditional_raw L Xn Xu k mu S fc))"
  by (simp add: conditional_def cholesky_uu_def)

lemma shape_new_zeros: "shape (new_zeros sh) = sh"
  by (simp add: new_zeros_def)

lemma npoints_Cons: "shape t = M # r \<Longrightarrow> npoints t = M"
  by (simp add: npoints_def)

lemma model_conditional_total:
  "\<exists>f_loc f_var. model_conditional e s Luu = Inr (f_loc, f_var)"
  by (simp add: model_conditional_def conditional_supplied clip_var_def)

lemma model_0dim:
  "shape (get_param P_Xu s) = [] \<Longrightarrow> model e s = (Inl IndexError, s\<lparr>mode := Some ''model''\<rparr>)"
  by (simp add: model_def set_mode_def get_param_def)

lemma model_not_pd:
  "shape (get_param P_Xu s) \<noteq> [] \<Longrightarrow> potrf e (model_Kuu s) = None \<Longrightarrow>
   model e s = (Inl NumericalError, s\<lparr>mode := Some ''model''\<rparr>)"
  by (cases "shape (get_param P_Xu s)")
     (simp_all add: model_def set_mode_def get_param_def model_Kuu_def npoints_def)

lemma model_returns:
  "shape (get_param P_Xu s) \<noteq> [] \<Longrightarrow> potrf e (model_Kuu s) = Some Luu \<Longrightarrow>
   model_conditional e s Luu = Inr (f_loc, f_var) \<Longrightarrow>
   model e s =
     (case self_y s of
        None \<Rightarrow> (Inr (Latent f_loc f_var),
                 s\<lparr>mode := Some ''model'',
                   trace := trace s @ [SampleSite (u_name_of e s) (prior_dist s Luu)]\<rparr>)
      | Some yv \<Rightarrow> (Inr (Observed (self_likelihood s f_loc f_var yv)),
                 s\<lparr>mode := Some ''model'',
                   trace := trace s @ [SampleSite (u_name_of e s) (prior_dist s Luu),
                                       LikelihoodCall f_loc f_var yv]\<rparr>))"
  by (cases "shape (get_param P_Xu s)")
     (simp_all add: model_def set_mode_def get_param_def model_Kuu_def npoints_def
        model_conditional_def pyro_sample_def u_name_of_def prior_dist_def Let_def
        shape_new_zeros split: option.splits)

lemma guide_eq:
  "guide e s =
     ((get_param P_Xu s, self_kernel s, get_param P_u_loc s, get_param P_u_scale_tril s),
      (if self_sample_latent s
       then s\<lparr>mode := Some ''guide'',
              trace := trace s @ [SampleSite (u_name_of e s) (posterior_dist s)]\<rparr>
       else s\<lparr>mode := Some ''guide''\<rparr>))"
  by (simp add: guide_def set_mode_def get_param_def pyro_sample_def u_name_of_def
        posterior_dist_def Let_def)

lemma forward_shape_error:
  "check_Xnew_shape Xnew s = Inl err \<Longrightarrow> forward e Xnew fc s = (Inl err, s)"
  by (simp add: forward_def)

lemma forward_checked:
  "check_Xnew_shape Xnew s = Inr u \<Longrightarrow>
   forward e Xnew fc s =
     (conditional (potrf e) Xnew (get_param P_Xu s) (self_kernel s) (get_param P_u_loc s)
        (get_param P_u_scale_tril s) None fc (self_jitter s),
      s\<lparr>mode := Some ''guide''\<rparr>)"
  by (simp add: forward_def guide_eq get_param_def Let_def split: sum.splits prod.splits)


lemma model_normal_return:
  assumes "fst (model e s) = Inr r"
  shows "\<exists>Luu f_loc f_var.
           shape (get_param P_Xu s) \<noteq> [] \<and> potrf e (model_Kuu s) = Some Luu \<and>
           model_conditional e s Luu = Inr (f_loc, f_var)"
proof (cases "shape (get_param P_Xu s) = []")
  case True
  with assms show ?thesis by (simp add: model_0dim)
next
  case nonempty: False
  show ?thesis
  proof (cases "potrf e (model_Kuu s)")
    case None
    with nonempty assms show ?thesis by (simp add: model_not_pd)
  next
    case (Some Luu)
    with nonempty model_conditional_total [of e s Luu] show ?thesis by blast
  qed
qed

lemma new_events_append: "trace s' = trace s @ evs \<Longrightarrow> new_events s s' = evs"
  by (simp add: new_events_def)

lemma model_trace_without_y:
  assumes "self_y s = None"
  shows "filter is_LikelihoodCall (new_events s (snd (model e s))) = []"
proof (cases "shape (get_param P_Xu s) = []")
  case True
  then show ?thesis by (simp add: model_0dim new_events_def)
next
  case nonempty: False
  show ?thesis
  proof (cases "potrf e (model_Kuu s)")
    case None
    with nonempty show ?thesis by (simp add: model_not_pd new_events_def)
  next
    case (Some Luu)
    from model_conditional_total [of e s Luu] obtain f_loc f_var where
      c: "model_conditional e s Luu = Inr (f_loc, f_var)" by blast
    show ?thesis
      using model_returns [OF nonempty Some c] assms by (simp add: new_events_def)
  qed
qed


lemma length_concat_replicate: "length (concat (replicate n xs)) = n * length xs"
  by (induction n) simp_all

lemma nth_concat_replicate:
  "b < n \<Longrightarrow> k < length xs \<Longrightarrow> concat (replicate n xs) ! (b * length xs + k) = xs ! k"
proof (induction n arbitrary: b)
  case 0
  then show ?case by simp
next
  case (Suc n)
  show ?case
  proof (cases b)
    case 0
    with Suc.prems show ?thesis by (simp add: nth_append)
  next
    case (Suc b')
    with Suc.prems have "b' < n" by simp
    from Suc.IH [OF this Suc.prems(2)] Suc show ?thesis
      by (simp add: nth_append)
  qed
qed

lemma flat_index_less:
  assumes "i < M" and "j < (M::nat)"
  shows "i * M + j < M * M"
proof -
  have "i * M + j < i * M + M" using assms by simp
  also have "\<dots> = Suc i * M" by simp
  also have "\<dots> \<le> M * M"
    using assms by (intro mult_le_mono1) simp
  finally show ?thesis .
qed

lemma length_eye: "length (data (eye M)) = M * M"
  by (simp add: eye_def)

lemma eye_entry:
  assumes "i < M" and "j < M"
  shows "data (eye M) ! (i * M + j) = (if i = j then 1 else 0)"
proof -
  have "i * M + j < M * M"
    using assms by (rule flat_index_less)
  moreover have "(i * M + j) div M = i" "(i * M + j) mod M = j"
    using assms by simp_all
  ultimately show ?thesis by (simp add: eye_def)
qed

lemma expand_eye:
  "expand (eye M) (ls @ [M, M]) =
     \<lparr>shape = ls @ [M, M], data = concat (replicate (prod_list ls) (data (eye M)))\<rparr>"
  by (simp add: expand_def eye_def)

lemma expand_eye_entry:
  assumes "b < prod_list ls" and "i < M" and "j < M"
  shows "data (expand (eye M) (ls @ [M, M])) ! (b * (M * M) + i * M + j) = (if i = j then 1 else 0)"
proof -
  have k: "i * M + j < length (data (eye M))"
    using flat_index_less [OF assms(2,3)] by (simp add: length_eye)
  have "data (expand (eye M) (ls @ [M, M])) ! (b * length (data (eye M)) + (i * M + j)) =
        data (eye M) ! (i * M + j)"
    unfolding expand_eye using nth_concat_replicate [OF assms(1) k] by simp
  then show ?thesis
    using eye_entry [OF assms(2,3)] by (simp add: length_eye add.assoc)
qed

lemma init_Inr:
  assumes "init w X y kern Xu_ref lik latent_shape jitter name = Inr s"
  shows "\<exists>M rest. shape (mem w Xu_ref) = M # rest \<and>
     s = \<lparr>mem = (mem w)(next_ref w := new_zeros (self_latent_shape s @ [M]),
                        Suc (next_ref w) := expand (eye M) (self_latent_shape s @ [M, M])),
          next_ref = Suc (Suc (next_ref w)),
          trace = trace w,
          self_X = X, self_y = y, self_kernel = kern, self_jitter = jitter, self_name = name,
          self_likelihood = lik,
          params = (\<lambda>p. case p of P_Xu \<Rightarrow> Xu_ref | P_u_loc \<Rightarrow> next_ref w
                              | P_u_scale_tril \<Rightarrow> Suc (next_ref w)),
          constraints = (\<lambda>p. None)(P_u_scale_tril := Some lower_cholesky),
          self_latent_shape =
            (case latent_shape of Some l \<Rightarrow> l
             | None \<Rightarrow> (case y of Some yv \<Rightarrow> butlast (shape yv) | None \<Rightarrow> [])),
          self_sample_latent = True,
          mode = None\<rparr>"
  using assms by (cases "shape (mem w Xu_ref)") (auto simp: init_def set_constraint_def Let_def)

lemma check_Xnew_shape_cases:
  "check_Xnew_shape Xnew s = Inr () \<or> check_Xnew_shape Xnew s = Inl ShapeError"
  by (simp add: check_Xnew_shape_def)

lemma forward_state:
  "snd (forward e Xnew fc s) =
     (if check_Xnew_shape Xnew s = Inr () then s\<lparr>mode := Some ''guide''\<rparr> else s)"
  using check_Xnew_shape_cases [of Xnew s]
  by (auto simp: forward_checked forward_shape_error)

lemma forward_normal_return:
  assumes "forward e Xnew fc s = (Inr r, s')"
  shows "check_Xnew_shape Xnew s = Inr () \<and> s' = s\<lparr>mode := Some ''guide''\<rparr> \<and>
         conditional (potrf e) Xnew (get_param P_Xu s) (self_kernel s) (get_param P_u_loc s)
           (get_param P_u_scale_tril s) None fc (self_jitter s) = Inr r"
  using assms check_Xnew_shape_cases [of Xnew s]
  by (auto simp: forward_checked forward_shape_error)



lemma check_Xnew_shape_Inr:
  "(check_Xnew_shape Xnew s = Inr ()) =
     (length (shape Xnew) = length (shape (self_X s)) \<and> tl (shape Xnew) = tl (shape (self_X s)))"
  by (simp add: check_Xnew_shape_def)

lemma forward_value:
  "fst (forward e Xnew fc s) =
     (if length (shape Xnew) = length (shape (self_X s)) \<and> tl (shape Xnew) = tl (shape (self_X s))
      then conditional (potrf e) Xnew (get_param P_Xu s) (self_kernel s) (get_param P_u_loc s)
             (get_param P_u_scale_tril s) None fc (self_jitter s)
      else Inl ShapeError)"
proof (cases "check_Xnew_shape Xnew s = Inr ()")
  case True
  have "fst (forward e Xnew fc s) =
      conditional (potrf e) Xnew (get_param P_Xu s) (self_kernel s) (get_param P_u_loc s)
        (get_param P_u_scale_tril s) None fc (self_jitter s)"
    unfolding forward_checked [OF True] by simp
  moreover from True
  have "length (shape Xnew) = length (shape (self_X s)) \<and> tl (shape Xnew) = tl (shape (self_X s))"
    by (simp only: check_Xnew_shape_Inr)
  ultimately show ?thesis by simp
next
  case False
  with check_Xnew_shape_cases [of Xnew s] have c: "check_Xnew_shape Xnew s = Inl ShapeError"
    by blast
  have "fst (forward e Xnew fc s) = Inl ShapeError"
    unfolding forward_shape_error [OF c] by simp
  moreover from False
  have "\<not> (length (shape Xnew) = length (shape (self_X s)) \<and> tl (shape Xnew) = tl (shape (self_X s)))"
    unfolding check_Xnew_shape_Inr .
  ultimately show ?thesis by (simp only: if_False)
qed

lemma forward_unchanged_fields:
  "self_X (snd (forward e Xnew fc s)) = self_X s"
  "self_kernel (snd (forward e Xnew fc s)) = self_kernel s"
  "self_jitter (snd (forward e Xnew fc s)) = self_jitter s"
  "get_param p (snd (forward e Xnew fc s)) = get_param p s"
  "trace (snd (forward e Xnew fc s)) = trace s"
  unfolding forward_state get_param_def by simp_all

lemma forward_depends_on:
  assumes "self_X sa = self_X sb" and "self_kernel sa = self_kernel sb"
    and "self_jitter sa = self_jitter sb"
    and "\<forall>p. get_param p sa = get_param p sb"
    and "potrf ea = potrf eb"
  shows "fst (forward ea Xnew fc sa) = fst (forward eb Xnew fc sb)"
proof -
  from assms(4) have "get_param P_Xu sa = get_param P_Xu sb"
    "get_param P_u_loc sa = get_param P_u_loc sb"
    "get_param P_u_scale_tril sa = get_param P_u_scale_tril sb"
    by blast+
  with assms(1,2,3,5) show ?thesis
    unfolding forward_value by (simp only:)
qed

lemma clip_nonneg: "0 \<le> clip v"
  by (simp add: clip_def)

lemma conditional_diag:
  assumes "conditional chol Xnew Xu kernelFn meanU scaleU choleskyUU False jitter = Inr (loc, var)"
  shows "\<exists>L. cholesky_uu chol Xu kernelFn choleskyUU jitter = Some L \<and>
           data var = map clip (data (snd (conditional_raw L Xnew Xu kernelFn meanU scaleU False)))"
  using assms by (auto simp: conditional_def clip_var_def split: option.splits)

lemma conditional_var_nonneg:
  assumes "conditional chol Xnew Xu kernelFn meanU scaleU choleskyUU False jitter = Inr (loc, var)"
  shows "\<forall>v \<in> set (data var). 0 \<le> v"
proof -
  from conditional_diag [OF assms] obtain L where
    "data var = map clip (data (snd (conditional_raw L Xnew Xu kernelFn meanU scaleU False)))"
    by blast
  then show ?thesis by (auto simp: clip_nonneg)
qed

section \<open>Properties\<close>

text \<open>
  C1. When \<open>model()\<close> returns, the latent mean and variance are the conditional
  of lines 111 and 112 at the training inputs \<open>X\<close>, computed from the values of
  \<open>Xu\<close>, \<open>u_loc\<close> and \<open>u_scale_tril\<close> read from the parameter store, with the
  Cholesky factor of \<open>Kuu\<close> and with \<open>full_cov = False\<close>. The value drawn at the
  sample site is not used: whatever the runtime draws, the result is the same.
\<close>

theorem model_conditional_reads_posterior_parameters:
  assumes "fst (model e s) = Inr r"
  shows "\<exists>Luu f_loc f_var.
           potrf e (model_Kuu s) = Some Luu \<and>
           conditional (potrf e) (self_X s) (get_param P_Xu s) (self_kernel s)
             (get_param P_u_loc s) (get_param P_u_scale_tril s) (Some Luu) False (self_jitter s)
             = Inr (f_loc, f_var) \<and>
           r = (case self_y s of None \<Rightarrow> Latent f_loc f_var
                | Some yv \<Rightarrow> Observed (self_likelihood s f_loc f_var yv)) \<and>
           (\<forall>d. fst (model (e\<lparr>draw := d\<rparr>) s) = Inr r)"
proof -
  from model_normal_return [OF assms] obtain Luu f_loc f_var where
    ne: "shape (get_param P_Xu s) \<noteq> []" and
    pd: "potrf e (model_Kuu s) = Some Luu" and
    c: "model_conditional e s Luu = Inr (f_loc, f_var)"
    by blast
  have r: "r = (case self_y s of None \<Rightarrow> Latent f_loc f_var
                | Some yv \<Rightarrow> Observed (self_likelihood s f_loc f_var yv))"
    using assms model_returns [OF ne pd c] by (simp split: option.splits)
  have "fst (model (e\<lparr>draw := d\<rparr>) s) = Inr r" for d
  proof -
    have pd': "potrf (e\<lparr>draw := d\<rparr>) (model_Kuu s) = Some Luu"
      using pd by simp
    have c': "model_conditional (e\<lparr>draw := d\<rparr>) s Luu = Inr (f_loc, f_var)"
      using c by (simp add: model_conditional_def)
    show ?thesis
      using model_returns [OF ne pd' c'] r by (simp split: option.splits)
  qed
  with pd c r show ?thesis
    unfolding model_conditional_def by blast
qed

theorem model_conditional_reads_posterior_parameters_witness:
  "fst (model e0 s0) =
     Inr (Latent \<lparr>shape = [2], data = [0, 0]\<rparr> \<lparr>shape = [2], data = [13 / 16, 13 / 16]\<rparr>) \<and>
   (\<forall>d. fst (model (e0\<lparr>draw := d\<rparr>) s0) =
     Inr (Latent \<lparr>shape = [2], data = [0, 0]\<rparr> \<lparr>shape = [2], data = [13 / 16, 13 / 16]\<rparr>))"
proof -
  have h: "fst (model e0 s0) =
     Inr (Latent \<lparr>shape = [2], data = [0, 0]\<rparr> \<lparr>shape = [2], data = [13 / 16, 13 / 16]\<rparr>)"
    by code_simp
  from model_conditional_reads_posterior_parameters [OF h] h show ?thesis
    by blast
qed

text \<open>
  C2. A call of \<open>model()\<close> that returns has declared exactly one sample site. Its
  name is built from the instance name and \<open>"u"\<close>, its distribution is the
  multivariate normal with mean zero (of the shape of \<open>u_loc\<close>) and scale factor
  \<open>Luu\<close>, the lower Cholesky factor of \<open>Kuu = k(Xu) + jitter I\<close> at the current
  value of the parameter \<open>Xu\<close>. A \<open>guide()\<close> of an instance of the same name,
  with sampling enabled, declares its site under the same name.
\<close>

theorem model_declares_one_site:
  assumes "model e s = (Inr r, s')"
  shows "\<exists>Luu. potrf e (model_Kuu s) = Some Luu \<and>
           trace s' = trace s @ new_events s s' \<and>
           filter is_SampleSite (new_events s s') =
             [SampleSite (u_name_of e s) (prior_dist s Luu)] \<and>
           (\<forall>g::'a svgp. self_name g = self_name s \<and> self_sample_latent g \<longrightarrow>
                new_events g (snd (guide e g)) =
                  [SampleSite (u_name_of e s) (posterior_dist g)])"
proof -
  from assms have "fst (model e s) = Inr r" by simp
  from model_normal_return [OF this] obtain Luu f_loc f_var where
    ne: "shape (get_param P_Xu s) \<noteq> []" and
    pd: "potrf e (model_Kuu s) = Some Luu" and
    c: "model_conditional e s Luu = Inr (f_loc, f_var)"
    by blast
  let ?site = "SampleSite (u_name_of e s) (prior_dist s Luu)"
  have tr: "trace s' = trace s @ (case self_y s of None \<Rightarrow> [?site]
              | Some yv \<Rightarrow> [?site, LikelihoodCall f_loc f_var yv])"
    using assms model_returns [OF ne pd c] by (auto split: option.splits)
  then have ev: "new_events s s' = (case self_y s of None \<Rightarrow> [?site]
              | Some yv \<Rightarrow> [?site, LikelihoodCall f_loc f_var yv])"
    by (rule new_events_append)
  have one: "filter is_SampleSite (new_events s s') = [?site]"
    unfolding ev by (simp split: option.splits)
  have g: "new_events g (snd (guide e g)) = [SampleSite (u_name_of e s) (posterior_dist g)]"
    if "self_name g = self_name s \<and> self_sample_latent g" for g :: "'a svgp"
    using that by (simp add: guide_eq new_events_def u_name_of_def)
  from pd tr ev one g show ?thesis by auto
qed

theorem model_declares_one_site_witness:
  "model e0 s0y = (Inr (Observed (13 / 8)), snd (model e0 s0y)) \<and>
   filter is_SampleSite (new_events s0y (snd (model e0 s0y))) =
     [SampleSite ''SVGP$$$u''
        (Reshape (MultivariateNormal \<lparr>shape = [1], data = [0]\<rparr> \<lparr>shape = [1, 1], data = [2]\<rparr>) 0)] \<and>
   new_events s0 (snd (guide e0 s0)) =
     [SampleSite ''SVGP$$$u''
        (Reshape (MultivariateNormal \<lparr>shape = [1], data = [0]\<rparr> \<lparr>shape = [1, 1], data = [1]\<rparr>) 0)]"
proof -
  have f: "fst (model e0 s0y) = Inr (Observed (13 / 8))"
    by code_simp
  then have h: "model e0 s0y = (Inr (Observed (13 / 8)), snd (model e0 s0y))"
    by (metis prod.collapse)
  have n: "self_name s0 = self_name s0y \<and> self_sample_latent s0"
    by code_simp
  have k: "potrf e0 (model_Kuu s0y) = Some \<lparr>shape = [1, 1], data = [2]\<rparr>"
    by code_simp
  have u: "u_name_of e0 s0y = ''SVGP$$$u''"
    by code_simp
  have p: "prior_dist s0y \<lparr>shape = [1, 1], data = [2]\<rparr> =
      Reshape (MultivariateNormal \<lparr>shape = [1], data = [0]\<rparr> \<lparr>shape = [1, 1], data = [2]\<rparr>) 0"
    by code_simp
  have q: "posterior_dist s0 =
      Reshape (MultivariateNormal \<lparr>shape = [1], data = [0]\<rparr> \<lparr>shape = [1, 1], data = [1]\<rparr>) 0"
    by code_simp
  from model_declares_one_site [OF h] n k u p q h show ?thesis
    by auto
qed


text \<open>
  C3. Without training outputs \<open>model()\<close> never calls the likelihood, and when it
  returns, it returns the latent mean and variance themselves. With training outputs
  \<open>y\<close> it returns what the likelihood returns on the latent mean, the latent
  variance and \<open>y\<close>, and has called the likelihood once, on these arguments.
\<close>

theorem model_return_value:
  "(self_y s = None \<longrightarrow> filter is_LikelihoodCall (new_events s (snd (model e s))) = []) \<and>
   (\<forall>r. fst (model e s) = Inr r \<longrightarrow>
      (\<exists>Luu f_loc f_var.
          potrf e (model_Kuu s) = Some Luu \<and>
          model_conditional e s Luu = Inr (f_loc, f_var) \<and>
          (case self_y s of
             None \<Rightarrow> r = Latent f_loc f_var
           | Some yv \<Rightarrow>
               r = Observed (self_likelihood s f_loc f_var yv) \<and>
               filter is_LikelihoodCall (new_events s (snd (model e s))) =
                 [LikelihoodCall f_loc f_var yv])))"
proof (intro conjI allI impI)
  assume "self_y s = None"
  then show "filter is_LikelihoodCall (new_events s (snd (model e s))) = []"
    by (rule model_trace_without_y)
next
  fix r
  assume ret: "fst (model e s) = Inr r"
  from model_normal_return [OF ret] obtain Luu f_loc f_var where
    ne: "shape (get_param P_Xu s) \<noteq> []" and
    pd: "potrf e (model_Kuu s) = Some Luu" and
    c: "model_conditional e s Luu = Inr (f_loc, f_var)"
    by blast
  have "case self_y s of
          None \<Rightarrow> r = Latent f_loc f_var
        | Some yv \<Rightarrow>
            r = Observed (self_likelihood s f_loc f_var yv) \<and>
            filter is_LikelihoodCall (new_events s (snd (model e s))) =
              [LikelihoodCall f_loc f_var yv]"
    using ret model_returns [OF ne pd c] by (auto simp: new_events_def split: option.splits)
  with pd c show "\<exists>Luu f_loc f_var.
          potrf e (model_Kuu s) = Some Luu \<and>
          model_conditional e s Luu = Inr (f_loc, f_var) \<and>
          (case self_y s of
             None \<Rightarrow> r = Latent f_loc f_var
           | Some yv \<Rightarrow>
               r = Observed (self_likelihood s f_loc f_var yv) \<and>
               filter is_LikelihoodCall (new_events s (snd (model e s))) =
                 [LikelihoodCall f_loc f_var yv])"
    by blast
qed

theorem model_return_value_witness:
  "self_y s0 = None \<and>
   fst (model e0 s0) =
     Inr (Latent \<lparr>shape = [2], data = [0, 0]\<rparr> \<lparr>shape = [2], data = [13 / 16, 13 / 16]\<rparr>) \<and>
   filter is_LikelihoodCall (new_events s0 (snd (model e0 s0))) = [] \<and>
   self_y s0y = Some y0 \<and>
   fst (model e0 s0y) = Inr (Observed (13 / 8)) \<and>
   (\<exists>f_loc f_var.
      lik0 f_loc f_var y0 = 13 / 8 \<and>
      filter is_LikelihoodCall (new_events s0y (snd (model e0 s0y))) =
        [LikelihoodCall f_loc f_var y0])"
proof -
  have y: "self_y s0 = None"
    by code_simp
  have r: "fst (model e0 s0) =
     Inr (Latent \<lparr>shape = [2], data = [0, 0]\<rparr> \<lparr>shape = [2], data = [13 / 16, 13 / 16]\<rparr>)"
    by code_simp
  have yy: "self_y s0y = Some y0"
    by code_simp
  have l: "self_likelihood s0y = lik0"
    by (simp add: s0y_def init_def set_constraint_def w0_def Let_def)
  have ry: "fst (model e0 s0y) = Inr (Observed (13 / 8))"
    by code_simp
  from model_return_value [of s0 e0] y
  have a: "filter is_LikelihoodCall (new_events s0 (snd (model e0 s0))) = []"
    by blast
  from model_return_value [of s0y e0] ry yy l
  have b: "\<exists>f_loc f_var.
      lik0 f_loc f_var y0 = 13 / 8 \<and>
      filter is_LikelihoodCall (new_events s0y (snd (model e0 s0y))) =
        [LikelihoodCall f_loc f_var y0]"
    by fastforce
  from y r yy ry a b show ?thesis by blast
qed

text \<open>
  C4. \<open>guide()\<close> returns the inducing points, the kernel, the posterior mean and
  the posterior scale factor, whatever the flag \<open>_sample_latent\<close>. With the flag
  set it declares the site of the inducing values with the learned posterior (mean
  \<open>u_loc\<close>, scale factor \<open>u_scale_tril\<close>); with the flag cleared it declares no
  site.
\<close>

theorem guide_sample_flag:
  "fst (guide e s) =
     (get_param P_Xu s, self_kernel s, get_param P_u_loc s, get_param P_u_scale_tril s) \<and>
   (self_sample_latent s \<longrightarrow>
      trace (snd (guide e s)) = trace s @ [SampleSite (u_name_of e s) (posterior_dist s)]) \<and>
   (\<not> self_sample_latent s \<longrightarrow> trace (snd (guide e s)) = trace s)"
  by (simp add: guide_eq)

theorem guide_sample_flag_witness:
  "self_sample_latent s0 \<and>
   trace (snd (guide e0 s0)) =
     trace s0 @ [SampleSite ''SVGP$$$u''
        (Reshape (MultivariateNormal \<lparr>shape = [1], data = [0]\<rparr> \<lparr>shape = [1, 1], data = [1]\<rparr>) 0)] \<and>
   \<not> self_sample_latent (s0\<lparr>self_sample_latent := False\<rparr>) \<and>
   trace (snd (guide e0 (s0\<lparr>self_sample_latent := False\<rparr>))) = trace s0 \<and>
   fst (guide e0 (s0\<lparr>self_sample_latent := False\<rparr>)) =
     (\<lparr>shape = [1, 1], data = [1 / 2]\<rparr>, kern0, \<lparr>shape = [1], data = [0]\<rparr>,
      \<lparr>shape = [1, 1], data = [1]\<rparr>)"
proof -
  have f: "self_sample_latent s0"
    by code_simp
  have u: "u_name_of e0 s0 = ''SVGP$$$u''"
    by code_simp
  have q: "posterior_dist s0 =
      Reshape (MultivariateNormal \<lparr>shape = [1], data = [0]\<rparr> \<lparr>shape = [1, 1], data = [1]\<rparr>) 0"
    by code_simp
  have k: "self_kernel (s0\<lparr>self_sample_latent := False\<rparr>) = kern0"
    by (simp add: s0_def init_def set_constraint_def w0_def Let_def)
  have p: "get_param P_Xu (s0\<lparr>self_sample_latent := False\<rparr>) = \<lparr>shape = [1, 1], data = [1 / 2]\<rparr>"
    "get_param P_u_loc (s0\<lparr>self_sample_latent := False\<rparr>) = \<lparr>shape = [1], data = [0]\<rparr>"
    "get_param P_u_scale_tril (s0\<lparr>self_sample_latent := False\<rparr>) = \<lparr>shape = [1, 1], data = [1]\<rparr>"
    by code_simp+
  from guide_sample_flag [of e0 s0] guide_sample_flag [of e0 "s0\<lparr>self_sample_latent := False\<rparr>"]
    f u q k p
  show ?thesis by simp
qed

text \<open>
  C5. The constructor makes \<open>u_loc\<close> the zero tensor of shape
  \<open>latent_shape + (M,)\<close> and \<open>u_scale_tril\<close> the \<open>M \<times> M\<close> identity expanded to
  \<open>latent_shape + (M, M)\<close>, in storage of their own. The inducing points are not copied:
  \<open>Parameter(Xu)\<close> wraps the caller's tensor, so the parameter \<open>Xu\<close> is the caller's
  tensor. On the instance \<open>s0\<close> an in-place update of the parameter \<open>Xu\<close> changes
  the tensor at the caller's address 0.
\<close>

theorem init_aliases_Xu_counterexample:
  "init w0 X0 None kern0 0 lik0 None 3 ''SVGP'' = Inr s0 \<and>
   params s0 P_Xu = 0 \<and>
   mem w0 0 = \<lparr>shape = [1, 1], data = [1 / 2]\<rparr> \<and>
   mem (write_param P_Xu \<lparr>shape = [1, 1], data = [9]\<rparr> s0) 0 = \<lparr>shape = [1, 1], data = [9]\<rparr>"
proof -
  have "init w0 X0 None kern0 0 lik0 None 3 ''SVGP'' = Inr s0"
    by (simp add: s0_def init_def w0_def Let_def)
  moreover have p: "params s0 P_Xu = 0"
    by code_simp
  moreover have "mem w0 0 = \<lparr>shape = [1, 1], data = [1 / 2]\<rparr>"
    by (simp add: w0_def)
  moreover from p have "mem (write_param P_Xu \<lparr>shape = [1, 1], data = [9]\<rparr> s0) 0 =
      \<lparr>shape = [1, 1], data = [9]\<rparr>"
    by (simp add: write_param_def)
  ultimately show ?thesis by blast
qed

text \<open>
  C5, as the constructor has it. After construction from an allocated \<open>Xu\<close> with
  \<open>M\<close> points: \<open>u_loc\<close> is the zero tensor of shape \<open>latent_shape + (M,)\<close>;
  \<open>u_scale_tril\<close> has shape \<open>latent_shape + (M, M)\<close> and is the identity in each
  batch; \<open>latent_shape\<close> is the argument, or by default the batch shape of \<open>y\<close>
  (empty without \<open>y\<close>); the parameter \<open>Xu\<close> is the caller's tensor itself, with the
  caller's values, and an in-place update of the parameter is an update of the caller's
  tensor.
\<close>

theorem init_parameters:
  assumes "init w X y kern Xu_ref lik latent_shape jitter name = Inr s"
    and "Xu_ref < next_ref w"
  shows "shape (mem w Xu_ref) \<noteq> [] \<and>
     self_latent_shape s =
       (case latent_shape of Some l \<Rightarrow> l
        | None \<Rightarrow> (case y of Some yv \<Rightarrow> butlast (shape yv) | None \<Rightarrow> [])) \<and>
     get_param P_u_loc s = new_zeros (self_latent_shape s @ [npoints (mem w Xu_ref)]) \<and>
     (\<forall>x \<in> set (data (get_param P_u_loc s)). x = 0) \<and>
     get_param P_u_scale_tril s =
       expand (eye (npoints (mem w Xu_ref)))
         (self_latent_shape s @ [npoints (mem w Xu_ref), npoints (mem w Xu_ref)]) \<and>
     (\<forall>b < prod_list (self_latent_shape s).
        \<forall>i < npoints (mem w Xu_ref). \<forall>j < npoints (mem w Xu_ref).
          data (get_param P_u_scale_tril s)
            ! (b * (npoints (mem w Xu_ref) * npoints (mem w Xu_ref))
                 + i * npoints (mem w Xu_ref) + j) =
          (if i = j then 1 else 0)) \<and>
     params s P_Xu = Xu_ref \<and>
     get_param P_Xu s = mem w Xu_ref \<and>
     (\<forall>v. mem (write_param P_Xu v s) Xu_ref = v)"
proof -
  from init_Inr [OF assms(1)] obtain M rest where
    sh: "shape (mem w Xu_ref) = M # rest" and
    s: "s = \<lparr>mem = (mem w)(next_ref w := new_zeros (self_latent_shape s @ [M]),
                        Suc (next_ref w) := expand (eye M) (self_latent_shape s @ [M, M])),
          next_ref = Suc (Suc (next_ref w)),
          trace = trace w,
          self_X = X, self_y = y, self_kernel = kern, self_jitter = jitter, self_name = name,
          self_likelihood = lik,
          params = (\<lambda>p. case p of P_Xu \<Rightarrow> Xu_ref | P_u_loc \<Rightarrow> next_ref w
                              | P_u_scale_tril \<Rightarrow> Suc (next_ref w)),
          constraints = (\<lambda>p. None)(P_u_scale_tril := Some lower_cholesky),
          self_latent_shape =
            (case latent_shape of Some l \<Rightarrow> l
             | None \<Rightarrow> (case y of Some yv \<Rightarrow> butlast (shape yv) | None \<Rightarrow> [])),
          self_sample_latent = True,
          mode = None\<rparr>"
    by blast
  have M: "npoints (mem w Xu_ref) = M"
    using sh by (rule npoints_Cons)
  have ls: "self_latent_shape s =
       (case latent_shape of Some l \<Rightarrow> l
        | None \<Rightarrow> (case y of Some yv \<Rightarrow> butlast (shape yv) | None \<Rightarrow> []))"
    by (subst s) simp
  have pX: "params s P_Xu = Xu_ref" and pl: "params s P_u_loc = next_ref w"
    and pt: "params s P_u_scale_tril = Suc (next_ref w)"
    by (subst s, simp)+
  have mem: "mem s = (mem w)(next_ref w := new_zeros (self_latent_shape s @ [M]),
                        Suc (next_ref w) := expand (eye M) (self_latent_shape s @ [M, M]))"
    by (subst s) simp
  have loc: "get_param P_u_loc s = new_zeros (self_latent_shape s @ [M])"
    by (simp add: get_param_def pl mem)
  have zero: "\<forall>x \<in> set (data (get_param P_u_loc s)). x = 0"
    by (simp add: loc new_zeros_def)
  have tril: "get_param P_u_scale_tril s = expand (eye M) (self_latent_shape s @ [M, M])"
    by (simp add: get_param_def pt mem)
  have ident: "\<forall>b < prod_list (self_latent_shape s). \<forall>i < M. \<forall>j < M.
      data (get_param P_u_scale_tril s) ! (b * (M * M) + i * M + j) = (if i = j then 1 else 0)"
    unfolding tril using expand_eye_entry by blast
  have Xu: "get_param P_Xu s = mem w Xu_ref"
    using assms(2) by (simp add: get_param_def pX mem)
  have shared: "\<forall>v. mem (write_param P_Xu v s) Xu_ref = v"
    by (simp add: write_param_def pX)
  from sh ls loc zero tril ident pX Xu shared show ?thesis
    unfolding M by simp
qed

theorem init_parameters_witness:
  "init w2 X0 None kern0 0 lik0 (Some [2]) 3 ''SVGP'' = Inr s_two \<and> 0 < next_ref w2 \<and>
   get_param P_u_loc s_two = \<lparr>shape = [2, 2], data = [0, 0, 0, 0]\<rparr> \<and>
   get_param P_u_scale_tril s_two = \<lparr>shape = [2, 2, 2], data = [1, 0, 0, 1, 1, 0, 0, 1]\<rparr> \<and>
   get_param P_Xu s_two = \<lparr>shape = [2, 1], data = [1 / 2, 3 / 2]\<rparr> \<and>
   mem (write_param P_Xu \<lparr>shape = [2, 1], data = [0, 9]\<rparr> s_two) 0 = \<lparr>shape = [2, 1], data = [0, 9]\<rparr>"
proof -
  have i: "init w2 X0 None kern0 0 lik0 (Some [2]) 3 ''SVGP'' = Inr s_two"
    by (simp add: s_two_def init_def w2_def Let_def)
  have n: "0 < next_ref w2"
    by (simp add: w2_def)
  have m: "mem w2 0 = \<lparr>shape = [2, 1], data = [1 / 2, 3 / 2]\<rparr>"
    by (simp add: w2_def)
  have l: "self_latent_shape s_two = [2]"
    by code_simp
  have z: "new_zeros [2, 2] = \<lparr>shape = [2, 2], data = [0, 0, 0, 0]\<rparr>"
    by code_simp
  have x: "expand (eye 2) [2, 2, 2] = \<lparr>shape = [2, 2, 2], data = [1, 0, 0, 1, 1, 0, 0, 1]\<rparr>"
    by code_simp
  from init_parameters [OF i n] i n show ?thesis
    by (simp add: m l z x npoints_def)
qed

text \<open>
  C6. When \<open>forward(Xnew, full_cov)\<close> returns, no parameter has changed (neither
  the addresses of \<open>Xu\<close>, \<open>u_loc\<close>, \<open>u_scale_tril\<close> nor the tensors stored
  there), no sample site has been declared, and the flag \<open>_sample_latent\<close> has the
  value it had before the call. The state after the call is the state before it with
  the mode set by the \<open>set_mode("guide")\<close> of \<open>guide()\<close>.
\<close>

theorem forward_side_effect_free:
  assumes "forward e Xnew full_cov s = (Inr r, s')"
  shows "(\<forall>p. get_param p s' = get_param p s) \<and>
         mem s' = mem s \<and> params s' = params s \<and>
         trace s' = trace s \<and>
         self_sample_latent s' = self_sample_latent s \<and>
         s' = s\<lparr>mode := Some ''guide''\<rparr>"
proof -
  from forward_normal_return [OF assms] have "s' = s\<lparr>mode := Some ''guide''\<rparr>"
    by blast
  then show ?thesis by (simp add: get_param_def)
qed

theorem forward_side_effect_free_witness:
  "fst (forward e0 X0 False s0) =
     Inr (\<lparr>shape = [2], data = [0, 0]\<rparr>, \<lparr>shape = [2], data = [13 / 16, 13 / 16]\<rparr>) \<and>
   trace (snd (forward e0 X0 False s0)) = trace s0 \<and>
   self_sample_latent (snd (forward e0 X0 False s0)) = self_sample_latent s0 \<and>
   (\<forall>p. get_param p (snd (forward e0 X0 False s0)) = get_param p s0)"
proof -
  have f: "fst (forward e0 X0 False s0) =
     Inr (\<lparr>shape = [2], data = [0, 0]\<rparr>, \<lparr>shape = [2], data = [13 / 16, 13 / 16]\<rparr>)"
    by code_simp
  then have h: "forward e0 X0 False s0 =
     (Inr (\<lparr>shape = [2], data = [0, 0]\<rparr>, \<lparr>shape = [2], data = [13 / 16, 13 / 16]\<rparr>),
      snd (forward e0 X0 False s0))"
    by (metis prod.collapse)
  from forward_side_effect_free [OF h] f show ?thesis
    by blast
qed




text \<open>
  C8. In diagonal mode (\<open>full_cov = False\<close>) every entry of the variance that the
  conditional returns is at least zero: it is the variance of steps 5 and 6 with each
  negative entry replaced by exactly zero and every other entry kept. The same holds for
  the variance returned by \<open>forward\<close> and for the latent variance of \<open>model()\<close>,
  which are values of the conditional.
\<close>

theorem predictive_variance_nonnegative:
  "(conditional chol Xnew Xu kernelFn meanU scaleU choleskyUU False jitter = Inr (loc, var) \<longrightarrow>
      (\<forall>v \<in> set (data var). 0 \<le> v) \<and>
      (\<exists>L. cholesky_uu chol Xu kernelFn choleskyUU jitter = Some L \<and>
           data var =
             map (\<lambda>v. if v < 0 then 0 else v)
               (data (snd (conditional_raw L Xnew Xu kernelFn meanU scaleU False))))) \<and>
   (fst (forward e Xnew False s) = Inr (loc, var) \<longrightarrow> (\<forall>v \<in> set (data var). 0 \<le> v)) \<and>
   (model_conditional e s Luu = Inr (loc, var) \<longrightarrow> (\<forall>v \<in> set (data var). 0 \<le> v)) \<and>
   (fst (model e s) = Inr (Latent loc var) \<longrightarrow> (\<forall>v \<in> set (data var). 0 \<le> v))"
proof (intro conjI impI)
  assume c: "conditional chol Xnew Xu kernelFn meanU scaleU choleskyUU False jitter = Inr (loc, var)"
  then show "\<forall>v \<in> set (data var). 0 \<le> v"
    by (rule conditional_var_nonneg)
  have "clip = (\<lambda>v. if v < 0 then 0 else v)"
    by (rule ext) (simp add: clip_def)
  with conditional_diag [OF c]
  show "\<exists>L. cholesky_uu chol Xu kernelFn choleskyUU jitter = Some L \<and>
           data var =
             map (\<lambda>v. if v < 0 then 0 else v)
               (data (snd (conditional_raw L Xnew Xu kernelFn meanU scaleU False)))"
    by simp
next
  assume f: "fst (forward e Xnew False s) = Inr (loc, var)"
  then have "conditional (potrf e) Xnew (get_param P_Xu s) (self_kernel s) (get_param P_u_loc s)
      (get_param P_u_scale_tril s) None False (self_jitter s) = Inr (loc, var)"
    unfolding forward_value by (simp split: if_splits)
  then show "\<forall>v \<in> set (data var). 0 \<le> v"
    by (rule conditional_var_nonneg)
next
  assume "model_conditional e s Luu = Inr (loc, var)"
  then show "\<forall>v \<in> set (data var). 0 \<le> v"
    unfolding model_conditional_def by (rule conditional_var_nonneg)
next
  assume m: "fst (model e s) = Inr (Latent loc var)"
  from model_normal_return [OF m] obtain L f_loc f_var where
    ne: "shape (get_param P_Xu s) \<noteq> []" and
    pd: "potrf e (model_Kuu s) = Some L" and
    c: "model_conditional e s L = Inr (f_loc, f_var)"
    by blast
  from m model_returns [OF ne pd c] have "f_var = var"
    by (simp split: option.splits)
  with c show "\<forall>v \<in> set (data var). 0 \<le> v"
    unfolding model_conditional_def using conditional_var_nonneg by blast
qed

theorem predictive_variance_nonnegative_witness:
  "fst (forward e0 X0 False s_cs) =
     Inr (\<lparr>shape = [2], data = [0, 0]\<rparr>, \<lparr>shape = [2], data = [0, 0]\<rparr>) \<and>
   fst (model e0 s_cs) = Inr (Latent \<lparr>shape = [2], data = [0, 0]\<rparr> \<lparr>shape = [2], data = [0, 0]\<rparr>) \<and>
   conditional_raw \<lparr>shape = [1, 1], data = [2]\<rparr> X0 (get_param P_Xu s_cs) kern_cs
       (get_param P_u_loc s_cs) (get_param P_u_scale_tril s_cs) False =
     (\<lparr>shape = [2], data = [0, 0]\<rparr>, \<lparr>shape = [2], data = [- (11 / 16), - (11 / 16)]\<rparr>) \<and>
   conditional (potrf e0) X0 (get_param P_Xu s_cs) kern_cs (get_param P_u_loc s_cs)
       (get_param P_u_scale_tril s_cs) None False 3 =
     Inr (\<lparr>shape = [2], data = [0, 0]\<rparr>, \<lparr>shape = [2], data = [0, 0]\<rparr>) \<and>
   (\<exists>L. cholesky_uu (potrf e0) (get_param P_Xu s_cs) kern_cs None 3 = Some L \<and>
        data \<lparr>shape = [2], data = [0, 0]\<rparr> =
          map (\<lambda>v. if v < 0 then 0 else v)
            (data (snd (conditional_raw L X0 (get_param P_Xu s_cs) kern_cs
                          (get_param P_u_loc s_cs) (get_param P_u_scale_tril s_cs) False))))"
proof -
  have f: "fst (forward e0 X0 False s_cs) =
     Inr (\<lparr>shape = [2], data = [0, 0]\<rparr>, \<lparr>shape = [2], data = [0, 0]\<rparr>)"
    by code_simp
  have m: "fst (model e0 s_cs) =
     Inr (Latent \<lparr>shape = [2], data = [0, 0]\<rparr> \<lparr>shape = [2], data = [0, 0]\<rparr>)"
    by code_simp
  have r: "conditional_raw \<lparr>shape = [1, 1], data = [2]\<rparr> X0 (get_param P_Xu s_cs) kern_cs
       (get_param P_u_loc s_cs) (get_param P_u_scale_tril s_cs) False =
     (\<lparr>shape = [2], data = [0, 0]\<rparr>, \<lparr>shape = [2], data = [- (11 / 16), - (11 / 16)]\<rparr>)"
    by code_simp
  have c: "conditional (potrf e0) X0 (get_param P_Xu s_cs) kern_cs (get_param P_u_loc s_cs)
       (get_param P_u_scale_tril s_cs) None False 3 =
     Inr (\<lparr>shape = [2], data = [0, 0]\<rparr>, \<lparr>shape = [2], data = [0, 0]\<rparr>)"
    by code_simp
  from predictive_variance_nonnegative
    [of "potrf e0" X0 "get_param P_Xu s_cs" kern_cs "get_param P_u_loc s_cs"
        "get_param P_u_scale_tril s_cs" None 3 "\<lparr>shape = [2], data = [0, 0]\<rparr>"
        "\<lparr>shape = [2], data = [0, 0]\<rparr>" e0 s_cs] c f m
  have "\<exists>L. cholesky_uu (potrf e0) (get_param P_Xu s_cs) kern_cs None 3 = Some L \<and>
        data \<lparr>shape = [2], data = [0, 0]\<rparr> =
          map (\<lambda>v. if v < 0 then 0 else v)
            (data (snd (conditional_raw L X0 (get_param P_Xu s_cs) kern_cs
                          (get_param P_u_loc s_cs) (get_param P_u_scale_tril s_cs) False)))"
    by blast
  with f m r c show ?thesis
    by blast
qed

text \<open>
  C9. The result of \<open>forward(Xnew, full_cov)\<close> is a function of \<open>Xnew\<close>,
  \<open>full_cov\<close>, the values of the three parameters, the training inputs, the kernel,
  the jitter and the Cholesky routine: two calls that agree on these return the same
  result (the same mean and covariance, or the same error), whatever the mode, the flag,
  the trace and the runtime's draws are. In particular a second call right after the
  first returns what the first returned, and a call declares no sample site, so it
  draws no value.
\<close>

theorem forward_deterministic:
  assumes "self_X sa = self_X sb" and "self_kernel sa = self_kernel sb"
    and "self_jitter sa = self_jitter sb"
    and "\<forall>p. get_param p sa = get_param p sb"
    and "potrf ea = potrf eb"
  shows "fst (forward ea Xnew full_cov sa) = fst (forward eb Xnew full_cov sb) \<and>
         fst (forward ea Xnew full_cov (snd (forward ea Xnew full_cov sa))) =
           fst (forward ea Xnew full_cov sa) \<and>
         trace (snd (forward ea Xnew full_cov sa)) = trace sa"
proof -
  have a: "fst (forward ea Xnew full_cov sa) = fst (forward eb Xnew full_cov sb)"
    using assms by (rule forward_depends_on)
  have b: "fst (forward ea Xnew full_cov (snd (forward ea Xnew full_cov sa))) =
           fst (forward ea Xnew full_cov sa)"
  proof (rule forward_depends_on)
    show "\<forall>p. get_param p (snd (forward ea Xnew full_cov sa)) = get_param p sa"
      by (simp add: forward_unchanged_fields)
  qed (simp_all only: forward_unchanged_fields)
  have c: "trace (snd (forward ea Xnew full_cov sa)) = trace sa"
    by (rule forward_unchanged_fields)
  from a b c show ?thesis by blast
qed

theorem forward_deterministic_witness:
  "fst (forward e0 X0 True s0) =
     Inr (\<lparr>shape = [2], data = [0, 0]\<rparr>,
          \<lparr>shape = [2, 2], data = [13 / 16, 13 / 16, 13 / 16, 13 / 16]\<rparr>) \<and>
   fst (forward (e0\<lparr>draw := (\<lambda>n d. X0)\<rparr>) X0 True s0') = fst (forward e0 X0 True s0) \<and>
   fst (forward e0 X0 True (snd (forward e0 X0 True s0))) = fst (forward e0 X0 True s0) \<and>
   trace (snd (forward e0 X0 True s0)) = trace s0"
proof -
  have v: "fst (forward e0 X0 True s0) =
     Inr (\<lparr>shape = [2], data = [0, 0]\<rparr>,
          \<lparr>shape = [2, 2], data = [13 / 16, 13 / 16, 13 / 16, 13 / 16]\<rparr>)"
    by code_simp
  have h: "self_X s0 = self_X s0'" "self_kernel s0 = self_kernel s0'"
    "self_jitter s0 = self_jitter s0'" "\<forall>p. get_param p s0 = get_param p s0'"
    "potrf e0 = potrf (e0\<lparr>draw := (\<lambda>n d. X0)\<rparr>)"
    by (simp_all add: s0'_def get_param_def)
  from forward_deterministic [OF h, of X0 True] have
    "fst (forward e0 X0 True s0) = fst (forward (e0\<lparr>draw := (\<lambda>n d. X0)\<rparr>) X0 True s0')"
    "fst (forward e0 X0 True (snd (forward e0 X0 True s0))) = fst (forward e0 X0 True s0)"
    "trace (snd (forward e0 X0 True s0)) = trace s0"
    by blast+
  with v show ?thesis
    by (simp only:)
qed

end
